theory Spec2Isabelle
  imports Complex_Main "HOL-Library.AList"
begin

section \<open>The iONA Energy API client (custom\_components/ionaenergy/api.py)\<close>

subsection \<open>Python values\<close>

text \<open>
  The token fields of the client, the stored configuration and every HTTP payload are
  untyped Python values (\<^verbatim>\<open>dict[str, Any]\<close>). They are modelled by the values a JSON
  document can hold; \<open>JNull\<close> is Python's \<^verbatim>\<open>None\<close>. A Python float is modelled by
  the rational number it denotes, so arithmetic is exact. A \<^verbatim>\<open>dict\<close> is an association
  list in insertion order with distinct keys.
\<close>

datatype json =
    JNull
  | JBool bool
  | JInt int
  | JFloat rat
  | JStr string
  | JList "json list"
  | JObj "(string \<times> json) list"

type_synonym dict = "(string \<times> json) list"

text \<open>Python's truth value of an object, as tested by \<^verbatim>\<open>not x\<close> and \<^verbatim>\<open>if x\<close>.\<close>

fun truthy :: "json \<Rightarrow> bool" where
  "truthy JNull = False"
| "truthy (JBool b) = b"
| "truthy (JInt i) = (i \<noteq> 0)"
| "truthy (JFloat r) = (r \<noteq> 0)"
| "truthy (JStr s) = (s \<noteq> [])"
| "truthy (JList xs) = (xs \<noteq> [])"
| "truthy (JObj kvs) = (kvs \<noteq> [])"

text \<open>
  The number a value stands for as an operand of \<^verbatim>\<open>+\<close> with a float: \<^verbatim>\<open>bool\<close> is a
  subclass of \<^verbatim>\<open>int\<close>; every other kind of value raises \<^verbatim>\<open>TypeError\<close> (\<open>None\<close>).
\<close>

fun num_of :: "json \<Rightarrow> rat option" where
  "num_of (JBool b) = Some (if b then 1 else 0)"
| "num_of (JInt i) = Some (of_int i)"
| "num_of (JFloat r) = Some r"
| "num_of JNull = None"
| "num_of (JStr s) = None"
| "num_of (JList xs) = None"
| "num_of (JObj kvs) = None"

text \<open>\<^verbatim>\<open>d.get(k)\<close> and \<^verbatim>\<open>d.get(k, default)\<close> on a dict.\<close>

definition dict_get :: "dict \<Rightarrow> string \<Rightarrow> json \<Rightarrow> json" where
  "dict_get d k dflt = (case map_of d k of None \<Rightarrow> dflt | Some v \<Rightarrow> v)"

subsection \<open>Constants (const.py)\<close>

definition AUTH_URL :: string where
  "AUTH_URL = ''https://webapp.iona-energy.com/auth''"

definition CONF_ACCESS_TOKEN :: string where
  "CONF_ACCESS_TOKEN = ''access_token''"

definition CONF_REFRESH_TOKEN :: string where
  "CONF_REFRESH_TOKEN = ''refresh_token''"

definition CONF_EXPIRES_IN :: string where
  "CONF_EXPIRES_IN = ''expires_in''"

subsection \<open>Errors\<close>

text \<open>
  Every exception the client raises is a value. \<open>ClientResponseError st msg\<close> is
  \<^verbatim>\<open>aiohttp.ClientResponseError(status=st, message=f"{msg}{st}")\<close>: the message of the
  source is the text \<open>msg\<close> followed by the decimal status, so the error holds both.
  \<open>ClientConnectionError\<close> is the transport failing to produce a response,
  \<open>JSONDecodeError\<close> is \<^verbatim>\<open>response.json()\<close> failing to parse the body.
\<close>

datatype error =
    ValueError string
  | ClientResponseError int string
  | TypeError
  | AttributeError
  | KeyError
  | OverflowError
  | ClientConnectionError
  | JSONDecodeError

subsection \<open>The world around the client\<close>

text \<open>
  An HTTP response: its status, what \<^verbatim>\<open>response.text()\<close> returns and what
  \<^verbatim>\<open>response.json()\<close> returns (\<open>None\<close> when the body does not parse).
\<close>

record response =
  resp_status :: int
  resp_text :: string
  resp_json :: "json option"

text \<open>
  A request as issued: \<open>POST url body\<close> carries the JSON body, \<open>GET url tok\<close> carries
  the value \<open>tok\<close> that the header \<^verbatim>\<open>f"Bearer {self.access_token}"\<close> interpolates.
\<close>

datatype request = POST string json | GET string json

text \<open>
  The environment of one call:
  \<^item> \<open>now\<close> is what \<^verbatim>\<open>time.time()\<close> returns (the clock does not advance within one
    call), \<open>utcnow\<close> is what \<^verbatim>\<open>datetime.utcnow()\<close> returns, in microseconds since
    0001-01-01T00:00:00 of the proleptic Gregorian calendar;
  \<^item> \<open>auth_responses\<close> are the responses the authentication endpoint will give, in
    order, \<open>api_responses\<close> those of api.n2g-iona.net; \<open>sent\<close> lists the requests
    issued so far, oldest first;
  \<^item> \<open>entries\<close> is the host's storage of config entries: the \<^verbatim>\<open>data\<close> of each
    \<^verbatim>\<open>ConfigEntry\<close>, by the entry's identity. The client holds a reference to an entry,
    never the entry itself.
\<close>

type_synonym entry_ref = nat

record world =
  now :: rat
  utcnow :: int
  auth_responses :: "response list"
  api_responses :: "response list"
  sent :: "request list"
  entries :: "entry_ref \<Rightarrow> dict"

subsection \<open>The client object\<close>

text \<open>
  The fields of \<^verbatim>\<open>IONAEnergyAPI\<close> that its methods read or write. The shared HTTP
  session and the SSL context carry no state of their own here.
\<close>

record client =
  access_token :: json
  refresh_token :: json
  expires_in :: json
  config_entry :: "entry_ref option"
  token_created_at :: rat
  last_token_refresh :: rat

text \<open>The result of a method: the value returned or the exception raised, and the state left behind.\<close>

type_synonym 'a outcome = "(error + 'a) \<times> client \<times> world"

text \<open>\<^verbatim>\<open>__init__\<close>: \<^verbatim>\<open>config_data.get(key)\<close> is \<^verbatim>\<open>None\<close> for a missing key.\<close>

definition init :: "dict \<Rightarrow> world \<Rightarrow> client" where
  "init config_data w =
     \<lparr> access_token = dict_get config_data CONF_ACCESS_TOKEN JNull,
       refresh_token = dict_get config_data CONF_REFRESH_TOKEN JNull,
       expires_in = dict_get config_data CONF_EXPIRES_IN JNull,
       config_entry = None,
       token_created_at = now w,
       last_token_refresh = now w \<rparr>"

definition set_config_entry :: "entry_ref \<Rightarrow> client \<Rightarrow> client" where
  "set_config_entry e c = c\<lparr>config_entry := Some e\<rparr>"

text \<open>
  \<^verbatim>\<open>_is_token_expired\<close> (Isabelle names do not start with an underscore). The sum
  \<^verbatim>\<open>self.token_created_at + self.expires_in\<close> raises \<^verbatim>\<open>TypeError\<close> when
  \<^verbatim>\<open>expires_in\<close> is a non-empty string, list or dict.
\<close>

definition is_token_expired :: "client \<Rightarrow> world \<Rightarrow> error + bool" where
  "is_token_expired c w =
     (if \<not> truthy (access_token c) then Inr True
      else if \<not> truthy (expires_in c) then Inr True
      else (case num_of (expires_in c) of
              None \<Rightarrow> Inl TypeError
            | Some e \<Rightarrow>
                (let time_until_expiry = (token_created_at c + e) - now w
                 in Inr (time_until_expiry < 300))))"

subsection \<open>The transport\<close>

text \<open>
  \<^verbatim>\<open>session.post(url, json=body)\<close> and \<^verbatim>\<open>session.get(url, headers=...)\<close>: the request
  is recorded and the next scripted response of the endpoint is returned; with none left
  the transport raises.
\<close>

definition http_post :: "string \<Rightarrow> json \<Rightarrow> world \<Rightarrow> (error + response) \<times> world" where
  "http_post url body w =
     (let w' = w\<lparr>sent := sent w @ [POST url body]\<rparr>
      in case auth_responses w of
           [] \<Rightarrow> (Inl ClientConnectionError, w')
         | r # rs \<Rightarrow> (Inr r, w'\<lparr>auth_responses := rs\<rparr>))"

definition http_get :: "string \<Rightarrow> json \<Rightarrow> world \<Rightarrow> (error + response) \<times> world" where
  "http_get url tok w =
     (let w' = w\<lparr>sent := sent w @ [GET url tok]\<rparr>
      in case api_responses w of
           [] \<Rightarrow> (Inl ClientConnectionError, w')
         | r # rs \<Rightarrow> (Inr r, w'\<lparr>api_responses := rs\<rparr>))"

subsection \<open>Token handling\<close>

text \<open>
  \<^verbatim>\<open>_update_tokens_in_config_entry\<close>. \<^verbatim>\<open>{**self.config_entry.data, K: v, ...}\<close> keeps
  the entry's keys in place and overwrites or appends the three token keys, which is
  \<open>AList.update\<close>. \<^verbatim>\<open>new_tokens.get\<close> raises \<^verbatim>\<open>AttributeError\<close> on a payload that is
  not a JSON object. The host's \<^verbatim>\<open>async_update_entry(entry, data=updated_data)\<close> replaces
  the stored data of that entry.
\<close>

definition update_tokens_in_config_entry :: "json \<Rightarrow> client \<Rightarrow> world \<Rightarrow> unit outcome" where
  "update_tokens_in_config_entry new_tokens c w =
     (case config_entry c of
        None \<Rightarrow> (Inr (), c, w)
      | Some e \<Rightarrow>
          (case new_tokens of
             JObj nt \<Rightarrow>
               (let updated_data =
                      AList.update CONF_EXPIRES_IN (dict_get nt ''expires_in'' JNull)
                        (AList.update CONF_REFRESH_TOKEN (dict_get nt ''refresh_token'' JNull)
                          (AList.update CONF_ACCESS_TOKEN (dict_get nt ''access_token'' JNull)
                            (entries w e)));
                    c' = c\<lparr> access_token := dict_get nt ''access_token'' JNull,
                            refresh_token := dict_get nt ''refresh_token'' JNull,
                            expires_in := dict_get nt ''expires_in'' JNull,
                            token_created_at := now w,
                            last_token_refresh := now w \<rparr>
                in (Inr (), c', w\<lparr>entries := (entries w)(e := updated_data)\<rparr>))
           | _ \<Rightarrow> (Inl AttributeError, c, w)))"

text \<open>\<^verbatim>\<open>refresh_access_token\<close>. On a status other than 200 the body is read and logged, and the error raised holds the status.\<close>

definition refresh_access_token :: "client \<Rightarrow> world \<Rightarrow> json outcome" where
  "refresh_access_token c w =
     (if \<not> truthy (refresh_token c) then (Inl (ValueError ''No refresh token available''), c, w)
      else
        (let refresh_data = JObj [(''method'', JStr ''refresh''), (''refresh_token'', refresh_token c)]
         in case http_post AUTH_URL refresh_data w of
              (Inl err, w1) \<Rightarrow> (Inl err, c, w1)
            | (Inr response, w1) \<Rightarrow>
                if resp_status response = 200 then
                  (case resp_json response of
                     None \<Rightarrow> (Inl JSONDecodeError, c, w1)
                   | Some new_tokens \<Rightarrow>
                       (case update_tokens_in_config_entry new_tokens c w1 of
                          (Inl err, c2, w2) \<Rightarrow> (Inl err, c2, w2)
                        | (Inr u, c2, w2) \<Rightarrow> (Inr new_tokens, c2, w2)))
                else
                  (Inl (ClientResponseError (resp_status response) ''Token refresh failed: ''), c, w1)))"

text \<open>\<^verbatim>\<open>_ensure_valid_token\<close>. An exception of the refresh is logged and raised again.\<close>

definition ensure_valid_token :: "client \<Rightarrow> world \<Rightarrow> unit outcome" where
  "ensure_valid_token c w =
     (if \<not> truthy (access_token c) then (Inl (ValueError ''No access token available''), c, w)
      else
        (case is_token_expired c w of
           Inl err \<Rightarrow> (Inl err, c, w)
         | Inr expired \<Rightarrow>
             if expired then
               (case refresh_access_token c w of
                  (Inl err, c1, w1) \<Rightarrow> (Inl err, c1, w1)
                | (Inr toks, c1, w1) \<Rightarrow> (Inr (), c1, w1))
             else (Inr (), c, w)))"


subsection \<open>Read operations\<close>

text \<open>\<^verbatim>\<open>return await response.json()\<close>.\<close>

definition return_json :: "response \<Rightarrow> client \<Rightarrow> world \<Rightarrow> json outcome" where
  "return_json response c w =
     (case resp_json response of None \<Rightarrow> (Inl JSONDecodeError, c, w) | Some d \<Rightarrow> (Inr d, c, w))"

definition INITIALISATION_URL :: string where
  "INITIALISATION_URL = ''https://api.n2g-iona.net/v2/initialisation''"

definition METER_INFO_URL :: string where
  "METER_INFO_URL = ''https://api.n2g-iona.net/v2/meter/info''"

text \<open>\<^verbatim>\<open>get_initialisation_data\<close>.\<close>

definition get_initialisation_data :: "client \<Rightarrow> world \<Rightarrow> json outcome" where
  "get_initialisation_data c w =
     (case ensure_valid_token c w of
        (Inl err, c1, w1) \<Rightarrow> (Inl err, c1, w1)
      | (Inr u, c1, w1) \<Rightarrow>
          (case http_get INITIALISATION_URL (access_token c1) w1 of
             (Inl err, w2) \<Rightarrow> (Inl err, c1, w2)
           | (Inr response, w2) \<Rightarrow>
               if resp_status response = 200 then return_json response c1 w2
               else if resp_status response = 401 then
                 (case ensure_valid_token c1 w2 of
                    (Inl err, c3, w3) \<Rightarrow> (Inl err, c3, w3)
                  | (Inr u, c3, w3) \<Rightarrow>
                      (case http_get INITIALISATION_URL (access_token c3) w3 of
                         (Inl err, w4) \<Rightarrow> (Inl err, c3, w4)
                       | (Inr retry_response, w4) \<Rightarrow>
                           if resp_status retry_response = 200 then return_json retry_response c3 w4
                           else (Inl (ClientResponseError (resp_status retry_response)
                                   ''Failed to get initialisation data after token refresh: ''), c3, w4)))
               else (Inl (ClientResponseError (resp_status response)
                       ''Failed to get initialisation data: ''), c1, w2)))"

text \<open>\<^verbatim>\<open>get_meter_info\<close>.\<close>

definition get_meter_info :: "client \<Rightarrow> world \<Rightarrow> json outcome" where
  "get_meter_info c w =
     (case ensure_valid_token c w of
        (Inl err, c1, w1) \<Rightarrow> (Inl err, c1, w1)
      | (Inr u, c1, w1) \<Rightarrow>
          (case http_get METER_INFO_URL (access_token c1) w1 of
             (Inl err, w2) \<Rightarrow> (Inl err, c1, w2)
           | (Inr response, w2) \<Rightarrow>
               if resp_status response = 200 then return_json response c1 w2
               else if resp_status response = 401 then
                 (case ensure_valid_token c1 w2 of
                    (Inl err, c3, w3) \<Rightarrow> (Inl err, c3, w3)
                  | (Inr u, c3, w3) \<Rightarrow>
                      (case http_get METER_INFO_URL (access_token c3) w3 of
                         (Inl err, w4) \<Rightarrow> (Inl err, c3, w4)
                       | (Inr retry_response, w4) \<Rightarrow>
                           if resp_status retry_response = 200 then return_json retry_response c3 w4
                           else (Inl (ClientResponseError (resp_status retry_response)
                                   ''Failed to get meter info after token refresh: ''), c3, w4)))
               else (Inl (ClientResponseError (resp_status response)
                       ''Failed to get meter info: ''), c1, w2)))"

subsection \<open>Timestamps and the power URL\<close>

text \<open>
  A naive \<^verbatim>\<open>datetime\<close> is modelled by its place on the time line, in microseconds since
  0001-01-01T00:00:00, which is what Python's own arithmetic with a \<^verbatim>\<open>timedelta\<close> goes
  through. \<open>ord2ymd\<close> is the standard library's conversion of a day number (day 1 is
  0001-01-01) to year, month and day.
\<close>

definition DAYS_BEFORE_MONTH :: "int list" where
  "DAYS_BEFORE_MONTH = [0, 0, 31, 59, 90, 120, 151, 181, 212, 243, 273, 304, 334]"

definition DAYS_IN_MONTH :: "int list" where
  "DAYS_IN_MONTH = [0, 31, 28, 31, 30, 31, 30, 31, 31, 30, 31, 30, 31]"

definition ord2ymd :: "int \<Rightarrow> int \<times> int \<times> int" where
  "ord2ymd n =
     (let n0 = n - 1;
          n400 = n0 div 146097; r400 = n0 mod 146097;
          n100 = r400 div 36524; r100 = r400 mod 36524;
          n4 = r100 div 1461; r4 = r100 mod 1461;
          n1 = r4 div 365; r1 = r4 mod 365;
          year = n400 * 400 + 1 + n100 * 100 + n4 * 4 + n1
      in if n1 = 4 \<or> n100 = 4 then (year - 1, 12, 31)
         else
           (let leapyear = (n1 = 3 \<and> (n100 = 3 \<or> n4 \<noteq> 24));
                month = (r1 + 50) div 32;
                preceding = DAYS_BEFORE_MONTH ! nat month + (if month > 2 \<and> leapyear then 1 else 0)
            in if preceding > r1 then
                 (let month' = month - 1;
                      preceding' = preceding -
                        (DAYS_IN_MONTH ! nat month' + (if month' = 2 \<and> leapyear then 1 else 0))
                  in (year, month', r1 - preceding' + 1))
               else (year, month, r1 - preceding + 1)))"

text \<open>The last \<open>k\<close> decimal digits of a number, zero-padded (\<^verbatim>\<open>%02d\<close>, \<^verbatim>\<open>%06d\<close>).\<close>

definition digit_char :: "nat \<Rightarrow> char" where
  "digit_char d = ''0123456789'' ! d"

fun zpad :: "nat \<Rightarrow> int \<Rightarrow> string" where
  "zpad 0 n = []"
| "zpad (Suc k) n = zpad k (n div 10) @ [digit_char (nat (n mod 10))]"

text \<open>\<^verbatim>\<open>dt.strftime("%Y-%m-%dT%H:%M:%S.%f")\<close>, for a year of four digits.\<close>

definition strftime :: "int \<Rightarrow> string" where
  "strftime t =
     (let day = t div 86400000000; us_of_day = t mod 86400000000;
          secs = us_of_day div 1000000; us = us_of_day mod 1000000
      in case ord2ymd (day + 1) of (y, m, d) \<Rightarrow>
           zpad 4 y @ ''-'' @ zpad 2 m @ ''-'' @ zpad 2 d @ ''T'' @
           zpad 2 (secs div 3600) @ '':'' @ zpad 2 (secs mod 3600 div 60) @ '':'' @
           zpad 2 (secs mod 60) @ ''.'' @ zpad 6 us)"

text \<open>\<^verbatim>\<open>dt.strftime("%Y-%m-%dT%H:%M:%S.%f")[:-3] + "Z"\<close>.\<close>

definition format_timestamp :: "int \<Rightarrow> string" where
  "format_timestamp t = (let s = strftime t in take (length s - 3) s @ ''Z'')"

text \<open>
  \<^verbatim>\<open>urllib.parse.quote(s)\<close> with its default \<^verbatim>\<open>safe="/"\<close>: letters, digits and
  \<^verbatim>\<open>_.-~/\<close> stay, every other byte becomes \<^verbatim>\<open>%XX\<close> in upper-case hexadecimal.
\<close>

definition ALWAYS_SAFE :: string where
  "ALWAYS_SAFE = ''ABCDEFGHIJKLMNOPQRSTUVWXYZabcdefghijklmnopqrstuvwxyz0123456789_.-~''"

definition hex_digit :: "nat \<Rightarrow> char" where
  "hex_digit d = ''0123456789ABCDEF'' ! d"

definition quote_char :: "char \<Rightarrow> string" where
  "quote_char ch =
     (if ch \<in> set ALWAYS_SAFE \<or> ch = CHR ''/'' then [ch]
      else [CHR ''%'', hex_digit (of_char ch div 16), hex_digit (of_char ch mod 16)])"

definition quote :: "string \<Rightarrow> string" where
  "quote s = concat (map quote_char s)"

text \<open>
  The URL of \<^verbatim>\<open>get_current_power\<close>: \<^verbatim>\<open>now - timedelta(minutes=5)\<close> raises
  \<^verbatim>\<open>OverflowError\<close> when it would fall before day 1.
\<close>

definition power_url :: "int \<Rightarrow> error + string" where
  "power_url t =
     (let end_time = t; start_time = t - 300000000
      in if start_time < 0 then Inl OverflowError
         else
           (let start_str = format_timestamp start_time;
                end_str = format_timestamp end_time
            in Inr (''https://api.n2g-iona.net/v2/power/'' @ quote start_str @ ''/'' @
                      quote end_str @ ''/'')))"

text \<open>
  The handling of a 200 payload in \<^verbatim>\<open>get_current_power\<close>, written out twice in the
  source (for the first response and for the retried one). \<^verbatim>\<open>.get\<close> on a value that is
  not a dict raises \<^verbatim>\<open>AttributeError\<close>; \<^verbatim>\<open>results[-1]\<close> is the last element of a list,
  the last character of a string, a \<^verbatim>\<open>KeyError\<close> on a dict and a \<^verbatim>\<open>TypeError\<close> on a
  number.
\<close>

definition power_reading :: "json \<Rightarrow> error + json" where
  "power_reading data =
     (case data of
        JObj envelope \<Rightarrow>
          if dict_get envelope ''status'' JNull = JStr ''ok'' then
            (case dict_get envelope ''data'' (JObj []) of
               JObj inner \<Rightarrow>
                 if truthy (dict_get inner ''results'' JNull) then
                   (let results = dict_get inner ''results'' JNull
                    in if truthy results then
                         (case results of
                            JList xs \<Rightarrow>
                              (case last xs of
                                 JObj latest \<Rightarrow>
                                   Inr (JObj [(''power'', dict_get latest ''power'' (JInt 0)),
                                              (''timestamp'', dict_get latest ''timestamp'' (JStr [])),
                                              (''unit'', JStr ''W'')])
                               | _ \<Rightarrow> Inl AttributeError)
                          | JStr s \<Rightarrow> Inl AttributeError
                          | JObj kvs \<Rightarrow> Inl KeyError
                          | _ \<Rightarrow> Inl TypeError)
                       else Inl (ValueError ''No power data available''))
                 else Inl (ValueError ''Invalid response format'')
             | _ \<Rightarrow> Inl AttributeError)
          else Inl (ValueError ''Invalid response format'')
      | _ \<Rightarrow> Inl AttributeError)"

definition return_power :: "response \<Rightarrow> client \<Rightarrow> world \<Rightarrow> json outcome" where
  "return_power response c w =
     (case resp_json response of
        None \<Rightarrow> (Inl JSONDecodeError, c, w)
      | Some data \<Rightarrow> (power_reading data, c, w))"

text \<open>\<^verbatim>\<open>get_current_power\<close>.\<close>

definition get_current_power :: "client \<Rightarrow> world \<Rightarrow> json outcome" where
  "get_current_power c w =
     (case ensure_valid_token c w of
        (Inl err, c1, w1) \<Rightarrow> (Inl err, c1, w1)
      | (Inr u, c1, w1) \<Rightarrow>
          (case power_url (utcnow w1) of
             Inl err \<Rightarrow> (Inl err, c1, w1)
           | Inr url \<Rightarrow>
               (case http_get url (access_token c1) w1 of
                  (Inl err, w2) \<Rightarrow> (Inl err, c1, w2)
                | (Inr response, w2) \<Rightarrow>
                    if resp_status response = 200 then return_power response c1 w2
                    else if resp_status response = 401 then
                      (case ensure_valid_token c1 w2 of
                         (Inl err, c3, w3) \<Rightarrow> (Inl err, c3, w3)
                       | (Inr u, c3, w3) \<Rightarrow>
                           (case http_get url (access_token c3) w3 of
                              (Inl err, w4) \<Rightarrow> (Inl err, c3, w4)
                            | (Inr retry_response, w4) \<Rightarrow>
                                if resp_status retry_response = 200
                                then return_power retry_response c3 w4
                                else (Inl (ClientResponseError (resp_status retry_response)
                                        ''Failed to get power data after token refresh: ''), c3, w4)))
                    else (Inl (ClientResponseError (resp_status response)
                            ''Failed to get power data: ''), c1, w2))))"

subsection \<open>Sample states\<close>

text \<open>
  A world at second 1200 of the clock, with no scripted responses, in which every stored
  entry holds a user name; and a client with a full set of tokens issued at second 1000
  and valid for an hour. The examples below vary them by record update.
\<close>

definition quiet_world :: world where
  "quiet_world =
     \<lparr> now = 1200, utcnow = 63839664123456789, auth_responses = [], api_responses = [],
       sent = [], entries = (\<lambda>e. [(''username'', JStr ''alice'')]) \<rparr>"

definition sample_client :: client where
  "sample_client =
     \<lparr> access_token = JStr ''tok'', refresh_token = JStr ''ref'', expires_in = JInt 3600,
       config_entry = Some 0, token_created_at = 1000, last_token_refresh = 1000 \<rparr>"

definition ok_response :: "json \<Rightarrow> response" where
  "ok_response payload = \<lparr> resp_status = 200, resp_text = ''(json)'', resp_json = Some payload \<rparr>"

definition status_response :: "int \<Rightarrow> string \<Rightarrow> response" where
  "status_response st body = \<lparr> resp_status = st, resp_text = body, resp_json = None \<rparr>"

text \<open>The requests the client sends to the authentication endpoint.\<close>

definition refresh_request :: "client \<Rightarrow> request" where
  "refresh_request c =
     POST AUTH_URL (JObj [(''method'', JStr ''refresh''), (''refresh_token'', refresh_token c)])"


text \<open>The token keys of a stored entry, and the entry's other items in their order.\<close>

definition token_keys :: "string set" where
  "token_keys = {CONF_ACCESS_TOKEN, CONF_REFRESH_TOKEN, CONF_EXPIRES_IN}"

definition other_fields :: "dict \<Rightarrow> dict" where
  "other_fields d = filter (\<lambda>kv. fst kv \<notin> token_keys) d"

definition new_tokens_payload :: json where
  "new_tokens_payload =
     JObj [(''access_token'', JStr ''tok2''), (''refresh_token'', JStr ''ref2''),
           (''expires_in'', JInt 7200)]"

text \<open>Worlds and payloads of the examples.\<close>

definition sample_payload :: json where
  "sample_payload = JObj [(''status'', JStr ''ok'')]"

definition reading :: "int \<Rightarrow> string \<Rightarrow> json" where
  "reading p ts = JObj [(''power'', JInt p), (''timestamp'', JStr ts)]"

definition power_payload :: "json \<Rightarrow> json" where
  "power_payload results = JObj [(''status'', JStr ''ok''), (''data'', JObj [(''results'', results)])]"

definition answering :: "json \<Rightarrow> world" where
  "answering payload = quiet_world\<lparr>api_responses := [ok_response payload]\<rparr>"

definition unauthorized_then :: "json \<Rightarrow> world" where
  "unauthorized_then payload =
     quiet_world\<lparr>auth_responses := [ok_response new_tokens_payload],
                 api_responses := [status_response 401 ''Unauthorized'', ok_response payload]\<rparr>"

definition sample_power_url :: string where
  "sample_power_url =
     ''https://api.n2g-iona.net/v2/power/2023-12-31T23%3A57%3A03.456Z/2024-01-01T00%3A02%3A03.456Z/''"

text \<open>The world after a request and its one retry, both with the token \<open>tok\<close>.\<close>

definition after_two_gets :: "string \<Rightarrow> json \<Rightarrow> response list \<Rightarrow> world \<Rightarrow> world" where
  "after_two_gets url tok rs w = w\<lparr>sent := sent w @ [GET url tok, GET url tok], api_responses := rs\<rparr>"

subsection \<open>The timestamp format of the specification\<close>




section \<open>Token expiry\<close>






section \<open>Refreshing and persisting tokens\<close>

lemma http_post_next:
  "auth_responses w = r # rs \<Longrightarrow>
   http_post url body w = (Inr r, w\<lparr>sent := sent w @ [POST url body], auth_responses := rs\<rparr>)"
  by (simp add: http_post_def)

lemma http_get_next:
  "api_responses w = r # rs \<Longrightarrow>
   http_get url tok w = (Inr r, w\<lparr>sent := sent w @ [GET url tok], api_responses := rs\<rparr>)"
  by (simp add: http_get_def)

lemma refresh_no_token:
  "\<not> truthy (refresh_token c) \<Longrightarrow>
   refresh_access_token c w = (Inl (ValueError ''No refresh token available''), c, w)"
  by (simp add: refresh_access_token_def)

lemma refresh_rejected:
  assumes "truthy (refresh_token c)" and "auth_responses w = r # rs" and "resp_status r \<noteq> 200"
  shows "refresh_access_token c w =
     (Inl (ClientResponseError (resp_status r) ''Token refresh failed: ''), c,
      w\<lparr>sent := sent w @ [refresh_request c], auth_responses := rs\<rparr>)"
  using assms by (simp add: refresh_access_token_def http_post_next refresh_request_def)

lemma refresh_accepted:
  assumes "truthy (refresh_token c)" and "auth_responses w = r # rs" and "resp_status r = 200"
    and "resp_json r = Some new_tokens"
  shows "refresh_access_token c w =
     (case update_tokens_in_config_entry new_tokens c
             (w\<lparr>sent := sent w @ [refresh_request c], auth_responses := rs\<rparr>) of
        (Inl err, c2, w2) \<Rightarrow> (Inl err, c2, w2)
      | (Inr u, c2, w2) \<Rightarrow> (Inr new_tokens, c2, w2))"
  using assms by (simp add: refresh_access_token_def http_post_next refresh_request_def)

lemma refresh_success_cases:
  assumes "refresh_access_token c w = (Inr toks, c', w')"
  obtains r rs where "truthy (refresh_token c)" "auth_responses w = r # rs" "resp_status r = 200"
    "resp_json r = Some toks"
    "update_tokens_in_config_entry toks c
       (w\<lparr>sent := sent w @ [refresh_request c], auth_responses := rs\<rparr>) = (Inr (), c', w')"
  using assms
  by (auto simp: refresh_access_token_def http_post_def refresh_request_def Let_def
      split: if_splits list.splits option.splits prod.splits sum.splits)

lemma other_fields_update:
  "k \<in> token_keys \<Longrightarrow> other_fields (AList.update k v al) = other_fields al"
  unfolding other_fields_def by (induction al) auto

lemma token_keys_mem:
  "CONF_ACCESS_TOKEN \<in> token_keys" "CONF_REFRESH_TOKEN \<in> token_keys"
  "CONF_EXPIRES_IN \<in> token_keys"
  by (simp_all add: token_keys_def)

lemma update_tokens_persisted:
  assumes "config_entry c = Some e"
    and "update_tokens_in_config_entry toks c w = (Inr (), c', w')"
  shows "map_of (entries w' e) CONF_ACCESS_TOKEN = Some (access_token c')"
    and "map_of (entries w' e) CONF_REFRESH_TOKEN = Some (refresh_token c')"
    and "map_of (entries w' e) CONF_EXPIRES_IN = Some (expires_in c')"
    and "k \<notin> token_keys \<Longrightarrow> map_of (entries w' e) k = map_of (entries w e) k"
  using assms
  by (auto simp: update_tokens_in_config_entry_def Let_def update_conv' token_keys_def
      CONF_ACCESS_TOKEN_def CONF_REFRESH_TOKEN_def CONF_EXPIRES_IN_def
      split: json.splits)

lemma update_tokens_other_fields:
  assumes "config_entry c = Some e"
    and "update_tokens_in_config_entry toks c w = (Inr (), c', w')"
  shows "other_fields (entries w' e) = other_fields (entries w e)"
  using assms
  by (auto simp: update_tokens_in_config_entry_def Let_def other_fields_update token_keys_mem
      split: json.splits)

lemma sample_refresh:
  "refresh_access_token sample_client (quiet_world\<lparr>auth_responses := [ok_response new_tokens_payload]\<rparr>) =
     (Inr new_tokens_payload,
      sample_client\<lparr>access_token := JStr ''tok2'', refresh_token := JStr ''ref2'',
         expires_in := JInt 7200, token_created_at := 1200, last_token_refresh := 1200\<rparr>,
      quiet_world\<lparr>auth_responses := [], sent := [refresh_request sample_client],
         entries := (entries quiet_world)(0 := [(''username'', JStr ''alice''),
            (''access_token'', JStr ''tok2''), (''refresh_token'', JStr ''ref2''),
            (''expires_in'', JInt 7200)])\<rparr>)"
  by (simp add: refresh_access_token_def http_post_def update_tokens_in_config_entry_def
      sample_client_def quiet_world_def ok_response_def new_tokens_payload_def dict_get_def
      refresh_request_def CONF_ACCESS_TOKEN_def CONF_REFRESH_TOKEN_def CONF_EXPIRES_IN_def)

text \<open>
  C4: after a successful \<^verbatim>\<open>refresh_access_token()\<close> of a client that holds its config
  entry, the three token fields of the stored entry equal the client's token fields, and
  every other field of the stored entry is as before the call (looked up by key, and as
  the list of the other items in their order).
\<close>

theorem refresh_persists_tokens:
  assumes "config_entry c = Some e"
    and "refresh_access_token c w = (Inr toks, c', w')"
  shows "map_of (entries w' e) CONF_ACCESS_TOKEN = Some (access_token c') \<and>
         map_of (entries w' e) CONF_REFRESH_TOKEN = Some (refresh_token c') \<and>
         map_of (entries w' e) CONF_EXPIRES_IN = Some (expires_in c') \<and>
         (\<forall>k. k \<notin> token_keys \<longrightarrow> map_of (entries w' e) k = map_of (entries w e) k) \<and>
         other_fields (entries w' e) = other_fields (entries w e)"
proof -
  from assms(2) obtain r rs where
    u: "update_tokens_in_config_entry toks c
          (w\<lparr>sent := sent w @ [refresh_request c], auth_responses := rs\<rparr>) = (Inr (), c', w')"
    by (rule refresh_success_cases)
  let ?w1 = "w\<lparr>sent := sent w @ [refresh_request c], auth_responses := rs\<rparr>"
  have e: "entries ?w1 e = entries w e" by simp
  show ?thesis
    using update_tokens_persisted [OF assms(1) u] update_tokens_other_fields [OF assms(1) u] e
    by simp
qed

theorem refresh_persists_tokens_witness:
  "map_of (entries (snd (snd (refresh_access_token sample_client
       (quiet_world\<lparr>auth_responses := [ok_response new_tokens_payload]\<rparr>)))) 0) CONF_ACCESS_TOKEN
     = Some (JStr ''tok2'') \<and>
   access_token (fst (snd (refresh_access_token sample_client
       (quiet_world\<lparr>auth_responses := [ok_response new_tokens_payload]\<rparr>)))) = JStr ''tok2'' \<and>
   other_fields (entries (snd (snd (refresh_access_token sample_client
       (quiet_world\<lparr>auth_responses := [ok_response new_tokens_payload]\<rparr>)))) 0)
     = [(''username'', JStr ''alice'')]"
proof -
  have c: "config_entry sample_client = Some 0"
    by (simp add: sample_client_def)
  have o: "other_fields (entries quiet_world 0) = [(''username'', JStr ''alice'')]"
    by (simp add: other_fields_def quiet_world_def token_keys_def
        CONF_ACCESS_TOKEN_def CONF_REFRESH_TOKEN_def CONF_EXPIRES_IN_def)
  show ?thesis
    using refresh_persists_tokens [OF c sample_refresh] o
    by (simp add: sample_refresh)
qed

text \<open>
  C5 (as stated): the error of a rejected refresh carries the response status and body.
  Two responses with status 500 and different bodies raise the same error: the body is
  not part of it.
\<close>

theorem refresh_error_without_body_counterexample:
  "fst (refresh_access_token sample_client
          (quiet_world\<lparr>auth_responses := [status_response 500 ''first body'']\<rparr>))
     = Inl (ClientResponseError 500 ''Token refresh failed: '') \<and>
   fst (refresh_access_token sample_client
          (quiet_world\<lparr>auth_responses := [status_response 500 ''second body'']\<rparr>))
     = Inl (ClientResponseError 500 ''Token refresh failed: '') \<and>
   resp_text (status_response 500 ''first body'') \<noteq> resp_text (status_response 500 ''second body'')"
  by (simp add: refresh_access_token_def http_post_def sample_client_def quiet_world_def
      status_response_def)

text \<open>
  C5 (amended): a \<^verbatim>\<open>refresh_access_token()\<close> call that receives a response with a status
  other than 200 fails with an error that carries the response status (and not the body),
  and leaves \<^verbatim>\<open>access_token\<close>, \<^verbatim>\<open>refresh_token\<close> and \<^verbatim>\<open>expires_in\<close>, indeed the
  whole client and the stored entries, as they were.
\<close>

theorem refresh_failure_keeps_tokens:
  assumes "truthy (refresh_token c)" and "auth_responses w = r # rs" and "resp_status r \<noteq> 200"
    and "refresh_access_token c w = (res, c', w')"
  shows "res = Inl (ClientResponseError (resp_status r) ''Token refresh failed: '') \<and>
         access_token c' = access_token c \<and> refresh_token c' = refresh_token c \<and>
         expires_in c' = expires_in c \<and> c' = c \<and> entries w' = entries w"
  using refresh_rejected [OF assms(1-3)] assms(4) by auto

theorem refresh_failure_keeps_tokens_witness:
  "refresh_access_token sample_client (quiet_world\<lparr>auth_responses := [status_response 500 ''no'']\<rparr>)
     = (Inl (ClientResponseError 500 ''Token refresh failed: ''), sample_client,
        quiet_world\<lparr>auth_responses := [status_response 500 ''no''],
                    sent := sent quiet_world @ [refresh_request sample_client],
                    auth_responses := []\<rparr>) \<and>
   access_token sample_client = JStr ''tok'' \<and> refresh_token sample_client = JStr ''ref'' \<and>
   expires_in sample_client = JInt 3600"
proof -
  let ?w = "quiet_world\<lparr>auth_responses := [status_response 500 ''no'']\<rparr>"
  have t: "truthy (refresh_token sample_client)" by (simp add: sample_client_def)
  have a: "auth_responses ?w = status_response 500 ''no'' # []" by simp
  have s: "resp_status (status_response 500 ''no'') \<noteq> 200" by (simp add: status_response_def)
  note rr = refresh_rejected [OF t a s]
  from refresh_failure_keeps_tokens [OF t a s rr] rr show ?thesis
    by (simp add: status_response_def sample_client_def)
qed

text \<open>
  C8: \<^verbatim>\<open>_ensure_valid_token()\<close> fails with "No access token available" when
  \<^verbatim>\<open>access_token\<close> is absent (\<^verbatim>\<open>not self.access_token\<close>), leaving the state untouched;
  otherwise it calls \<^verbatim>\<open>refresh_access_token()\<close> exactly when \<^verbatim>\<open>_is_token_expired()\<close> is
  true, and then fails with the refresh's own error and state if the refresh fails; when
  the token is not expired, or the expiry test itself raises, nothing is sent.
  \<^verbatim>\<open>refresh_access_token()\<close> fails with "No refresh token available" when
  \<^verbatim>\<open>refresh_token\<close> is absent, with the world, and so the list of requests sent, unchanged.
\<close>

theorem precondition_errors:
  "(\<not> truthy (access_token c) \<longrightarrow>
      ensure_valid_token c w = (Inl (ValueError ''No access token available''), c, w)) \<and>
   (truthy (access_token c) \<and> is_token_expired c w = Inr True \<longrightarrow>
      ensure_valid_token c w =
        (case refresh_access_token c w of
           (Inl err, c1, w1) \<Rightarrow> (Inl err, c1, w1)
         | (Inr toks, c1, w1) \<Rightarrow> (Inr (), c1, w1))) \<and>
   (truthy (access_token c) \<and> is_token_expired c w = Inr False \<longrightarrow>
      ensure_valid_token c w = (Inr (), c, w)) \<and>
   (truthy (access_token c) \<and> is_token_expired c w = Inl err \<longrightarrow>
      ensure_valid_token c w = (Inl err, c, w)) \<and>
   (\<not> truthy (refresh_token c) \<longrightarrow>
      refresh_access_token c w = (Inl (ValueError ''No refresh token available''), c, w))"
  by (simp add: ensure_valid_token_def refresh_no_token)

theorem precondition_errors_witness:
  "ensure_valid_token (sample_client\<lparr>access_token := JNull\<rparr>) quiet_world
     = (Inl (ValueError ''No access token available''), sample_client\<lparr>access_token := JNull\<rparr>, quiet_world) \<and>
   ensure_valid_token sample_client quiet_world = (Inr (), sample_client, quiet_world) \<and>
   ensure_valid_token sample_client
        (quiet_world\<lparr>now := 5000, auth_responses := [status_response 500 ''no'']\<rparr>)
     = (Inl (ClientResponseError 500 ''Token refresh failed: ''), sample_client,
        quiet_world\<lparr>now := 5000, auth_responses := [], sent := [refresh_request sample_client]\<rparr>) \<and>
   ensure_valid_token (sample_client\<lparr>expires_in := JStr ''3600''\<rparr>) quiet_world
     = (Inl TypeError, sample_client\<lparr>expires_in := JStr ''3600''\<rparr>, quiet_world) \<and>
   refresh_access_token (sample_client\<lparr>refresh_token := JNull\<rparr>)
        (quiet_world\<lparr>auth_responses := [ok_response new_tokens_payload]\<rparr>)
     = (Inl (ValueError ''No refresh token available''), sample_client\<lparr>refresh_token := JNull\<rparr>,
        quiet_world\<lparr>auth_responses := [ok_response new_tokens_payload]\<rparr>)"
proof -
  let ?w5 = "quiet_world\<lparr>now := 5000, auth_responses := [status_response 500 ''no'']\<rparr>"
  have t: "truthy (refresh_token sample_client)" by (simp add: sample_client_def)
  have a: "auth_responses ?w5 = status_response 500 ''no'' # []" by simp
  have s: "resp_status (status_response 500 ''no'') \<noteq> 200" by (simp add: status_response_def)
  have e1: "is_token_expired sample_client quiet_world = Inr False"
    by (simp add: is_token_expired_def sample_client_def quiet_world_def)
  have e2: "is_token_expired sample_client ?w5 = Inr True"
    by (simp add: is_token_expired_def sample_client_def quiet_world_def)
  have e3: "is_token_expired (sample_client\<lparr>expires_in := JStr ''3600''\<rparr>) quiet_world = Inl TypeError"
    by (simp add: is_token_expired_def sample_client_def quiet_world_def)
  have ta: "truthy (access_token sample_client)" by (simp add: sample_client_def)
  show ?thesis
    using precondition_errors [of "sample_client\<lparr>access_token := JNull\<rparr>" quiet_world TypeError]
      precondition_errors [of sample_client quiet_world TypeError]
      precondition_errors [of sample_client ?w5 TypeError]
      precondition_errors [of "sample_client\<lparr>expires_in := JStr ''3600''\<rparr>" quiet_world TypeError]
      precondition_errors [of "sample_client\<lparr>refresh_token := JNull\<rparr>"
         "quiet_world\<lparr>auth_responses := [ok_response new_tokens_payload]\<rparr>" TypeError]
      e1 e2 e3 ta refresh_rejected [OF t a s]
    by (simp add: status_response_def quiet_world_def)
qed

text \<open>
  C9: with no config entry set, a \<^verbatim>\<open>refresh_access_token()\<close> that receives a 200 response
  returns the payload and leaves the client as it was (tokens and both timestamps); in
  the world only the request sent and the response consumed change, so nothing is stored.
\<close>

theorem refresh_without_config_entry:
  assumes "config_entry c = None" and "truthy (refresh_token c)"
    and "auth_responses w = r # rs" and "resp_status r = 200" and "resp_json r = Some payload"
  shows "refresh_access_token c w =
           (Inr payload, c, w\<lparr>sent := sent w @ [refresh_request c], auth_responses := rs\<rparr>)"
  using assms
  by (simp add: refresh_accepted [OF assms(2-5)] update_tokens_in_config_entry_def)

theorem refresh_without_config_entry_witness:
  "refresh_access_token (sample_client\<lparr>config_entry := None\<rparr>)
       (quiet_world\<lparr>auth_responses := [ok_response new_tokens_payload]\<rparr>)
     = (Inr new_tokens_payload, sample_client\<lparr>config_entry := None\<rparr>,
        quiet_world\<lparr>auth_responses := [], sent := [refresh_request sample_client]\<rparr>)"
  using refresh_without_config_entry [of "sample_client\<lparr>config_entry := None\<rparr>"
      "quiet_world\<lparr>auth_responses := [ok_response new_tokens_payload]\<rparr>"
      "ok_response new_tokens_payload" "[]" new_tokens_payload]
  by (simp add: sample_client_def quiet_world_def ok_response_def refresh_request_def)



section \<open>Read operations\<close>

lemma is_token_expired_same_clock:
  "now w' = now w \<Longrightarrow> is_token_expired c w' = is_token_expired c w"
  by (simp add: is_token_expired_def split: option.splits)

lemma ensure_valid_token_fresh:
  "truthy (access_token c) \<Longrightarrow> is_token_expired c w = Inr False \<Longrightarrow>
   ensure_valid_token c w = (Inr (), c, w)"
  by (simp add: ensure_valid_token_def)

lemma get_initialisation_data_no_refresh:
  assumes "truthy (access_token c)" and "is_token_expired c w = Inr False"
    and "api_responses w = r1 # r2 # rs" and "resp_status r1 = 401"
  shows "resp_status r2 = 200 \<Longrightarrow> resp_json r2 = Some payload \<Longrightarrow>
         get_initialisation_data c w = (Inr payload, c, after_two_gets INITIALISATION_URL (access_token c) rs w)"
    and "resp_status r2 \<noteq> 200 \<Longrightarrow>
         get_initialisation_data c w =
           (Inl (ClientResponseError (resp_status r2) ''Failed to get initialisation data after token refresh: ''), c,
            after_two_gets INITIALISATION_URL (access_token c) rs w)"
proof -
  let ?w2 = "w\<lparr>sent := sent w @ [GET INITIALISATION_URL (access_token c)], api_responses := r2 # rs\<rparr>"
  have e1: "ensure_valid_token c w = (Inr (), c, w)"
    using assms(1,2) by (rule ensure_valid_token_fresh)
  have "is_token_expired c ?w2 = Inr False"
    using assms(2) by (simp add: is_token_expired_same_clock [of ?w2 w])
  then have e2: "ensure_valid_token c ?w2 = (Inr (), c, ?w2)"
    using assms(1) by (simp add: ensure_valid_token_fresh)
  have g1: "http_get INITIALISATION_URL (access_token c) w = (Inr r1, ?w2)"
    using assms(3) by (simp add: http_get_def)
  have g2: "http_get INITIALISATION_URL (access_token c) ?w2 =
      (Inr r2, after_two_gets INITIALISATION_URL (access_token c) rs w)"
    by (simp add: http_get_def after_two_gets_def)
  show "resp_status r2 = 200 \<Longrightarrow> resp_json r2 = Some payload \<Longrightarrow>
         get_initialisation_data c w = (Inr payload, c, after_two_gets INITIALISATION_URL (access_token c) rs w)"
    using assms by (simp add: get_initialisation_data_def e1 g1 e2 g2 return_json_def)
  show "resp_status r2 \<noteq> 200 \<Longrightarrow>
         get_initialisation_data c w =
           (Inl (ClientResponseError (resp_status r2) ''Failed to get initialisation data after token refresh: ''), c,
            after_two_gets INITIALISATION_URL (access_token c) rs w)"
    using assms by (simp add: get_initialisation_data_def e1 g1 e2 g2)
qed

lemma get_meter_info_no_refresh:
  assumes "truthy (access_token c)" and "is_token_expired c w = Inr False"
    and "api_responses w = r1 # r2 # rs" and "resp_status r1 = 401"
  shows "resp_status r2 = 200 \<Longrightarrow> resp_json r2 = Some payload \<Longrightarrow>
         get_meter_info c w = (Inr payload, c, after_two_gets METER_INFO_URL (access_token c) rs w)"
    and "resp_status r2 \<noteq> 200 \<Longrightarrow>
         get_meter_info c w =
           (Inl (ClientResponseError (resp_status r2) ''Failed to get meter info after token refresh: ''), c,
            after_two_gets METER_INFO_URL (access_token c) rs w)"
proof -
  let ?w2 = "w\<lparr>sent := sent w @ [GET METER_INFO_URL (access_token c)], api_responses := r2 # rs\<rparr>"
  have e1: "ensure_valid_token c w = (Inr (), c, w)"
    using assms(1,2) by (rule ensure_valid_token_fresh)
  have "is_token_expired c ?w2 = Inr False"
    using assms(2) by (simp add: is_token_expired_same_clock [of ?w2 w])
  then have e2: "ensure_valid_token c ?w2 = (Inr (), c, ?w2)"
    using assms(1) by (simp add: ensure_valid_token_fresh)
  have g1: "http_get METER_INFO_URL (access_token c) w = (Inr r1, ?w2)"
    using assms(3) by (simp add: http_get_def)
  have g2: "http_get METER_INFO_URL (access_token c) ?w2 =
      (Inr r2, after_two_gets METER_INFO_URL (access_token c) rs w)"
    by (simp add: http_get_def after_two_gets_def)
  show "resp_status r2 = 200 \<Longrightarrow> resp_json r2 = Some payload \<Longrightarrow>
         get_meter_info c w = (Inr payload, c, after_two_gets METER_INFO_URL (access_token c) rs w)"
    using assms by (simp add: get_meter_info_def e1 g1 e2 g2 return_json_def)
  show "resp_status r2 \<noteq> 200 \<Longrightarrow>
         get_meter_info c w =
           (Inl (ClientResponseError (resp_status r2) ''Failed to get meter info after token refresh: ''), c,
            after_two_gets METER_INFO_URL (access_token c) rs w)"
    using assms by (simp add: get_meter_info_def e1 g1 e2 g2)
qed

lemma get_current_power_no_refresh:
  assumes "truthy (access_token c)" and "is_token_expired c w = Inr False"
    and "power_url (utcnow w) = Inr url"
    and "api_responses w = r1 # r2 # rs" and "resp_status r1 = 401"
  shows "resp_status r2 = 200 \<Longrightarrow> resp_json r2 = Some payload \<Longrightarrow>
         get_current_power c w = (power_reading payload, c, after_two_gets url (access_token c) rs w)"
    and "resp_status r2 \<noteq> 200 \<Longrightarrow>
         get_current_power c w =
           (Inl (ClientResponseError (resp_status r2) ''Failed to get power data after token refresh: ''), c,
            after_two_gets url (access_token c) rs w)"
proof -
  let ?w2 = "w\<lparr>sent := sent w @ [GET url (access_token c)], api_responses := r2 # rs\<rparr>"
  have e1: "ensure_valid_token c w = (Inr (), c, w)"
    using assms(1,2) by (rule ensure_valid_token_fresh)
  have "is_token_expired c ?w2 = Inr False"
    using assms(2) by (simp add: is_token_expired_same_clock [of ?w2 w])
  then have e2: "ensure_valid_token c ?w2 = (Inr (), c, ?w2)"
    using assms(1) by (simp add: ensure_valid_token_fresh)
  have g1: "http_get url (access_token c) w = (Inr r1, ?w2)"
    using assms(4) by (simp add: http_get_def)
  have g2: "http_get url (access_token c) ?w2 =
      (Inr r2, after_two_gets url (access_token c) rs w)"
    by (simp add: http_get_def after_two_gets_def)
  show "resp_status r2 = 200 \<Longrightarrow> resp_json r2 = Some payload \<Longrightarrow>
         get_current_power c w = (power_reading payload, c, after_two_gets url (access_token c) rs w)"
    using assms by (simp add: get_current_power_def e1 g1 e2 g2 return_power_def)
  show "resp_status r2 \<noteq> 200 \<Longrightarrow>
         get_current_power c w =
           (Inl (ClientResponseError (resp_status r2) ''Failed to get power data after token refresh: ''), c,
            after_two_gets url (access_token c) rs w)"
    using assms by (simp add: get_current_power_def e1 g1 e2 g2)
qed

lemma power_url_sample: "power_url 63839664123456789 = Inr sample_power_url"
  unfolding sample_power_url_def by code_simp

lemma get_current_power_first_ok:
  assumes "ensure_valid_token c w = (Inr (), c1, w1)" and "power_url (utcnow w1) = Inr url"
    and "api_responses w1 = r # rs" and "resp_status r = 200" and "resp_json r = Some payload"
  shows "get_current_power c w =
           (power_reading payload, c1,
            w1\<lparr>sent := sent w1 @ [GET url (access_token c1)], api_responses := rs\<rparr>)"
  using assms by (simp add: get_current_power_def http_get_def return_power_def)


lemma power_reading_empty_results:
  assumes "map_of envelope ''status'' = Some (JStr ''ok'')"
    and "map_of envelope ''data'' = Some (JObj inner)"
    and "map_of inner ''results'' = Some (JList [])"
  shows "power_reading (JObj envelope) = Inl (ValueError ''Invalid response format'')"
  using assms by (simp add: power_reading_def dict_get_def)

lemma power_reading_missing_results:
  assumes "map_of envelope ''status'' = Some (JStr ''ok'')"
    and "map_of envelope ''data'' = Some (JObj inner)"
    and "map_of inner ''results'' = None"
  shows "power_reading (JObj envelope) = Inl (ValueError ''Invalid response format'')"
  using assms by (simp add: power_reading_def dict_get_def)

lemma power_reading_never_no_data:
  "power_reading data \<noteq> Inl (ValueError ''No power data available'')"
  by (simp add: power_reading_def Let_def split: json.splits)

text \<open>
  C1: on the responses 401, 200 every read operation is claimed to make exactly one forced
  token refresh and to retry with the new token. With a token that the local clock still
  holds valid, the code's second \<^verbatim>\<open>_ensure_valid_token()\<close> does nothing: each of the three
  operations sends its request twice with the same token \<open>tok\<close>, sends nothing to the
  authentication endpoint (whose scripted response is still unconsumed), leaves the client
  as it was, and returns the 200 payload.
\<close>

theorem retry_reuses_token:
  "get_initialisation_data sample_client (unauthorized_then sample_payload)
     = (Inr sample_payload, sample_client,
        (unauthorized_then sample_payload)
          \<lparr>sent := [GET INITIALISATION_URL (JStr ''tok''), GET INITIALISATION_URL (JStr ''tok'')],
           api_responses := []\<rparr>) \<and>
   get_meter_info sample_client (unauthorized_then sample_payload)
     = (Inr sample_payload, sample_client,
        (unauthorized_then sample_payload)
          \<lparr>sent := [GET METER_INFO_URL (JStr ''tok''), GET METER_INFO_URL (JStr ''tok'')],
           api_responses := []\<rparr>) \<and>
   get_current_power sample_client (unauthorized_then (power_payload (JList [reading 150 ''t2''])))
     = (Inr (JObj [(''power'', JInt 150), (''timestamp'', JStr ''t2''), (''unit'', JStr ''W'')]),
        sample_client,
        (unauthorized_then (power_payload (JList [reading 150 ''t2''])))
          \<lparr>sent := [GET sample_power_url (JStr ''tok''), GET sample_power_url (JStr ''tok'')],
           api_responses := []\<rparr>) \<and>
   auth_responses (unauthorized_then sample_payload) = [ok_response new_tokens_payload] \<and>
   is_token_expired sample_client (unauthorized_then sample_payload) = Inr False"
proof -
  have t: "truthy (access_token sample_client)" by (simp add: sample_client_def)
  have x: "is_token_expired sample_client (unauthorized_then p) = Inr False" for p
    by (simp add: is_token_expired_def sample_client_def unauthorized_then_def quiet_world_def)
  have a: "api_responses (unauthorized_then p) = status_response 401 ''Unauthorized'' # ok_response p # []" for p
    by (simp add: unauthorized_then_def)
  have s1: "resp_status (status_response 401 ''Unauthorized'') = 401" by (simp add: status_response_def)
  have s2: "resp_status (ok_response p) = 200" for p by (simp add: ok_response_def)
  have j: "resp_json (ok_response p) = Some p" for p by (simp add: ok_response_def)
  have u: "power_url (utcnow (unauthorized_then p)) = Inr sample_power_url" for p
    by (simp add: unauthorized_then_def quiet_world_def power_url_sample)
  have tok: "access_token sample_client = JStr ''tok''" by (simp add: sample_client_def)
  have snt: "sent (unauthorized_then p) = []" for p
    by (simp add: unauthorized_then_def quiet_world_def)
  have p: "power_reading (power_payload (JList [reading 150 ''t2'']))
            = Inr (JObj [(''power'', JInt 150), (''timestamp'', JStr ''t2''), (''unit'', JStr ''W'')])"
    by (simp add: power_reading_def power_payload_def reading_def dict_get_def)
  show ?thesis
    by (simp add: get_initialisation_data_no_refresh(1) [OF t x a s1 s2 j]
        get_meter_info_no_refresh(1) [OF t x a s1 s2 j]
        get_current_power_no_refresh(1) [OF t x u a s1 s2 j]
        after_two_gets_def tok snt p x)
      (simp add: unauthorized_then_def)
qed

text \<open>
  C2: a 200 payload with status "ok" and an empty \<^verbatim>\<open>data.results\<close> is claimed to fail
  with "No power data available". The code tests the truth value of
  \<^verbatim>\<open>data.get("data", {}).get("results")\<close> first, an empty list is false, and the call
  fails with "Invalid response format" (\<open>power_reading_never_no_data\<close>: the other message
  is never raised).
\<close>

theorem empty_results_invalid_format:
  "get_current_power sample_client (answering (power_payload (JList [])))
     = (Inl (ValueError ''Invalid response format''), sample_client,
        (answering (power_payload (JList [])))
          \<lparr>sent := [GET sample_power_url (JStr ''tok'')], api_responses := []\<rparr>)"
proof -
  let ?w = "answering (power_payload (JList []))"
  have e: "ensure_valid_token sample_client ?w = (Inr (), sample_client, ?w)"
    by (simp add: ensure_valid_token_def is_token_expired_def sample_client_def
        answering_def quiet_world_def)
  have u: "power_url (utcnow ?w) = Inr sample_power_url"
    by (simp add: answering_def quiet_world_def power_url_sample)
  have a: "api_responses ?w = ok_response (power_payload (JList [])) # []"
    by (simp add: answering_def)
  have s: "resp_status (ok_response (power_payload (JList []))) = 200"
    by (simp add: ok_response_def)
  have j: "resp_json (ok_response (power_payload (JList []))) = Some (power_payload (JList []))"
    by (simp add: ok_response_def)
  have p: "power_reading (power_payload (JList [])) = Inl (ValueError ''Invalid response format'')"
    by (simp add: power_payload_def power_reading_empty_results)
  have n: "sent ?w = []" by (simp add: answering_def quiet_world_def)
  have t: "access_token sample_client = JStr ''tok''" by (simp add: sample_client_def)
  show ?thesis
    by (simp add: get_current_power_first_ok [OF e u a s j] p n t)
qed



section \<open>The query window\<close>


















end
